theory Spec2Isabelle
  imports Complex_Main "HOL-Library.Product_Lexorder"
begin

section \<open>Activity ranking scripts: rework cost, rework hours, execution time\<close>

text \<open>
  The repository holds three scripts. \<^verbatim>\<open>total_rework_cost.py\<close> and
  \<^verbatim>\<open>total_rework_duration.py\<close> are the same program up to the name of the metric column
  and the printed labels; they are embedded once, as \<open>main_rework\<close>, over a \<open>variant\<close>
  record. \<^verbatim>\<open>total_time_reduction.py\<close> is written differently and is embedded on its own, as
  \<open>main_time_reduction\<close>.

  Numbers are real numbers: Python floats are read as the finite values they denote and
  arithmetic is exact, so rounding, overflow, infinities and NaN are not part of the
  model. Two places where the programs leave it: a sum of metrics beyond the largest
  float is \<open>inf\<close> in the programs (and a target \<open>inf * 0.0\<close> is \<open>nan\<close>, which no comparison
  meets), and a goal so small that its hundredth underflows gives the target 0. The
  properties of the selection below are therefore stated over the target that a run
  reports, not over the goal it was computed from. A missing value (None, NaN) is the
  cell \<open>Missing\<close>. Strings are byte strings and the character classes are the ASCII ones.
\<close>

subsection \<open>Cells and errors\<close>

datatype error = ValueError

datatype cell = Missing | Text string | Num real

subsection \<open>Strings: strip, lower, digits\<close>

definition is_space :: "char \<Rightarrow> bool" where
  "is_space c = (c \<in> set [CHR 0x09, CHR 0x0A, CHR 0x0B, CHR 0x0C, CHR 0x0D,
                             CHR 0x1C, CHR 0x1D, CHR 0x1E, CHR 0x1F, CHR '' ''])"

definition strip :: "string \<Rightarrow> string" where
  "strip s = rev (dropWhile is_space (rev (dropWhile is_space s)))"

definition lower_char :: "char \<Rightarrow> char" where
  "lower_char c =
     (case map_of (zip ''ABCDEFGHIJKLMNOPQRSTUVWXYZ'' ''abcdefghijklmnopqrstuvwxyz'') c of
        Some l \<Rightarrow> l
      | None \<Rightarrow> c)"

definition lower :: "string \<Rightarrow> string" where
  "lower s = map lower_char s"

definition is_digit :: "char \<Rightarrow> bool" where
  "is_digit c = (c \<in> set ''0123456789'')"

definition digit_val :: "char \<Rightarrow> nat" where
  "digit_val c = of_char c - 48"

definition digits_value :: "string \<Rightarrow> nat" where
  "digits_value ds = foldl (\<lambda>n c. 10 * n + digit_val c) 0 ds"

subsection \<open>The builtin \<open>float\<close> on a string\<close>

text \<open>
  \<open>float(s)\<close> strips white space, allows single underscores between digits, and then
  reads an optional sign, digits with an optional point (at least one digit in all) and an
  optional exponent; anything else raises \<open>ValueError\<close>. The spellings \<open>inf\<close>,
  \<open>infinity\<close> and \<open>nan\<close>, which denote no real number, are outside the modelled inputs.
\<close>

fun remove_underscores :: "char \<Rightarrow> string \<Rightarrow> string option" where
  "remove_underscores prev [] = (if prev = CHR ''_'' then None else Some [])"
| "remove_underscores prev (c # cs) =
     (if c = CHR ''_'' then
        (if is_digit prev then remove_underscores c cs else None)
      else if prev = CHR ''_'' \<and> \<not> is_digit c then None
      else map_option ((#) c) (remove_underscores c cs))"

definition exponent_part :: "string \<Rightarrow> int option" where
  "exponent_part r =
     (case r of
        [] \<Rightarrow> Some 0
      | c # r1 \<Rightarrow>
          if c = CHR ''e'' \<or> c = CHR ''E'' then
            (let (neg, ds) = (case r1 of
                                [] \<Rightarrow> (False, r1)
                              | d # r2 \<Rightarrow> if d = CHR ''-'' then (True, r2)
                                          else if d = CHR ''+'' then (False, r2)
                                          else (False, r1))
             in if ds \<noteq> [] \<and> dropWhile is_digit ds = []
                then Some (if neg then - int (digits_value ds) else int (digits_value ds))
                else None)
          else None)"

definition pow10 :: "int \<Rightarrow> real" where
  "pow10 e = (if 0 \<le> e then 10 ^ nat e else 1 / 10 ^ nat (- e))"

definition float_literal :: "string \<Rightarrow> error + real" where
  "float_literal t =
     (let (sgn, u) = (case t of
                        [] \<Rightarrow> (1, t)
                      | c # r \<Rightarrow> if c = CHR ''-'' then (- 1, r)
                                 else if c = CHR ''+'' then (1, r)
                                 else (1, t));
          ip = takeWhile is_digit u;
          r1 = dropWhile is_digit u;
          (fp, r2) = (case r1 of
                        [] \<Rightarrow> ([], r1)
                      | c # r \<Rightarrow> if c = CHR ''.''
                                 then (takeWhile is_digit r, dropWhile is_digit r)
                                 else ([], r1))
      in if ip = [] \<and> fp = [] then Inl ValueError
         else case exponent_part r2 of
                None \<Rightarrow> Inl ValueError
              | Some e \<Rightarrow>
                  Inr (sgn * (real (digits_value ip)
                              + real (digits_value fp) / 10 ^ length fp) * pow10 e))"

definition py_float :: "string \<Rightarrow> error + real" where
  "py_float s =
     (case remove_underscores (CHR 0x00) (strip s) of
        None \<Rightarrow> Inl ValueError
      | Some t \<Rightarrow> float_literal t)"

subsection \<open>The regular expression of \<open>parse_rate\<close>\<close>

text \<open>
  \<^verbatim>\<open>re.search(r"[-+]?\d*\.?\d+", s)\<close>: the leftmost match, each part greedy.
  At one position, after the optional sign, \<open>\d*\<close> takes the whole run of digits; if a
  point and at least one digit follow, they are taken too; otherwise the point is given
  back and the match is the run of digits, which must then be non-empty. When the part
  after a sign does not match, the engine retries without the sign.
\<close>

definition match_unsigned :: "string \<Rightarrow> string option" where
  "match_unsigned cs =
     (let ds = takeWhile is_digit cs;
          rest = dropWhile is_digit cs;
          es = (case rest of
                  [] \<Rightarrow> []
                | c # r \<Rightarrow> if c = CHR ''.'' then takeWhile is_digit r else [])
      in if es \<noteq> [] then Some (ds @ CHR ''.'' # es)
         else if ds \<noteq> [] then Some ds
         else None)"

definition match_here :: "string \<Rightarrow> string option" where
  "match_here cs =
     (case cs of
        [] \<Rightarrow> None
      | c # r \<Rightarrow>
          if c = CHR ''-'' \<or> c = CHR ''+'' then
            (case match_unsigned r of
               Some m \<Rightarrow> Some (c # m)
             | None \<Rightarrow> match_unsigned cs)
          else match_unsigned cs)"

fun re_search :: "string \<Rightarrow> string option" where
  "re_search [] = None"
| "re_search (c # cs) =
     (case match_here (c # cs) of
        Some m \<Rightarrow> Some m
      | None \<Rightarrow> re_search cs)"

subsection \<open>The two rate parsers\<close>

definition clamp01 :: "real \<Rightarrow> real" where
  "clamp01 v = max 0 (min 1 v)"

text \<open>\<open>parse_rate\<close> of the rework scripts (lines 41 to 63 of both).\<close>

definition parse_rate :: "cell \<Rightarrow> error + real" where
  "parse_rate x =
     (case x of
        Missing \<Rightarrow> Inr 0
      | Text t \<Rightarrow>
          (let s = strip t in
           if s = [] then Inr 0
           else case re_search s of
                  None \<Rightarrow> Inr 0
                | Some m \<Rightarrow>
                    (case py_float m of
                       Inl e \<Rightarrow> Inl e
                     | Inr v \<Rightarrow>
                         if CHR ''%'' \<in> set s then Inr (clamp01 (v / 100))
                         else Inr (clamp01 (if v > 1 then v / 100 else v))))
      | Num n \<Rightarrow> (let v = (if n > 1 then n / 100 else n) in Inr (clamp01 v)))"

text \<open>
  \<open>parse_automation_rate\<close> of \<^verbatim>\<open>total_time_reduction.py\<close> (lines 7 to 26). It turns its
  argument into a string first; the string of a number has no percent sign and reads
  back as the same number, so a \<open>Num\<close> cell goes straight to the comparison with 1.
\<close>

definition parse_automation_rate :: "cell \<Rightarrow> error + real" where
  "parse_automation_rate x =
     (case x of
        Missing \<Rightarrow> Inr 0
      | Num n \<Rightarrow> if n > 1 then Inr (n / 100) else Inr n
      | Text t \<Rightarrow>
          (let s = strip t in
           if CHR ''%'' \<in> set s then
             (case py_float (filter (\<lambda>c. c \<noteq> CHR ''%'') s) of
                Inl e \<Rightarrow> Inl e
              | Inr v \<Rightarrow> Inr (v / 100))
           else case py_float s of
                  Inl e \<Rightarrow> Inl e
                | Inr v \<Rightarrow> if v > 1 then Inr (v / 100) else Inr v))"

text \<open>The rule of the specification, in its words: with a percent sign the number is
  on a 0 to 100 scale; without one a number above 1 is on that scale and a number up to 1
  is a fraction already; the result is clamped to the unit interval.\<close>

definition reference_rate :: "bool \<Rightarrow> real \<Rightarrow> real" where
  "reference_rate has_percent v =
     clamp01 (if has_percent then v / 100 else if v > 1 then v / 100 else v)"

subsection \<open>Tables\<close>

text \<open>
  A data frame is its list of column names and its rows, one cell per column; a row
  that is too short reads as missing cells, as the CSV reader pads it. Column names are
  taken to be distinct, as the reader makes them.
\<close>

record dataframe =
  columns :: "string list"
  rows :: "cell list list"

definition index_of :: "string \<Rightarrow> string list \<Rightarrow> nat" where
  "index_of name cols = length (takeWhile (\<lambda>c. c \<noteq> name) cols)"

definition cell_at :: "cell list \<Rightarrow> nat \<Rightarrow> cell" where
  "cell_at r i = (if i < length r then r ! i else Missing)"

definition get_col :: "string list \<Rightarrow> cell list list \<Rightarrow> string \<Rightarrow> cell list" where
  "get_col cols rs name = map (\<lambda>r. cell_at r (index_of name cols)) rs"

text \<open>\<open>find_col\<close> (lines 31 to 38 of the rework scripts): the dictionary keeps the last
  column of each normalised name.\<close>

fun first_candidate :: "(string \<rightharpoonup> string) \<Rightarrow> string list \<Rightarrow> string option" where
  "first_candidate lookup [] = None"
| "first_candidate lookup (cand # cands) =
     (case lookup (lower (strip cand)) of
        Some c \<Rightarrow> Some c
      | None \<Rightarrow> first_candidate lookup cands)"

definition find_col :: "string list \<Rightarrow> string list \<Rightarrow> string option" where
  "find_col cols candidates =
     first_candidate (map_of (rev (map (\<lambda>c. (lower (strip c), c)) cols))) candidates"

text \<open>\<^verbatim>\<open>pd.to_numeric(..., errors="coerce").fillna(0)\<close>, cell by cell: what does not read
  as a number becomes 0. The reader of text cells is taken to be the one of \<open>float\<close>.\<close>

definition to_numeric :: "cell \<Rightarrow> real" where
  "to_numeric x =
     (case x of
        Missing \<Rightarrow> 0
      | Num n \<Rightarrow> n
      | Text t \<Rightarrow> (case py_float t of Inl e \<Rightarrow> 0 | Inr v \<Rightarrow> v))"

text \<open>\<open>Series.apply\<close>: the first exception ends the run.\<close>

fun apply_all :: "('a \<Rightarrow> error + 'b) \<Rightarrow> 'a list \<Rightarrow> error + 'b list" where
  "apply_all f [] = Inr []"
| "apply_all f (x # xs) =
     (case f x of
        Inl e \<Rightarrow> Inl e
      | Inr y \<Rightarrow> (case apply_all f xs of Inl e \<Rightarrow> Inl e | Inr ys \<Rightarrow> Inr (y # ys)))"

record row =
  activity :: cell
  metric :: real
  rate :: real

text \<open>The column \<open>reducible_rework_cost\<close>, \<open>reducible_rework_hours\<close> or
  \<open>potential_savings\<close>: the metric times the rate.\<close>

definition reducible :: "row \<Rightarrow> real" where
  "reducible r = metric r * rate r"

fun make_rows :: "cell list \<Rightarrow> real list \<Rightarrow> real list \<Rightarrow> row list" where
  "make_rows (a # as) (m # ms) (q # qs) =
     \<lparr>activity = a, metric = m, rate = q\<rparr> # make_rows as ms qs"
| "make_rows _ _ _ = []"

text \<open>The cleaned table: the three columns, the metric made numeric and the rate parsed
  (lines 93 to 97 of the rework scripts, 57 and 58 of the third).\<close>

definition load_table ::
  "(cell \<Rightarrow> error + real) \<Rightarrow> string list \<Rightarrow> cell list list \<Rightarrow> string \<Rightarrow> string \<Rightarrow> string
     \<Rightarrow> error + row list" where
  "load_table parse cols rs a m q =
     (let names = get_col cols rs a;
          metrics = map to_numeric (get_col cols rs m)
      in case apply_all parse (get_col cols rs q) of
           Inl e \<Rightarrow> Inl e
         | Inr rates \<Rightarrow> Inr (make_rows names metrics rates))"

subsection \<open>The selection loop\<close>

text \<open>The loop of all three scripts, over the test that ends it: rows with nothing to
  reduce are skipped, a row is appended and added to the running sum, and the loop breaks
  when the test holds of the new sum.\<close>

fun select_loop :: "(real \<Rightarrow> bool) \<Rightarrow> row list \<Rightarrow> row list \<Rightarrow> real \<Rightarrow> row list \<times> real" where
  "select_loop stop [] selected cum = (selected, cum)"
| "select_loop stop (r # rs) selected cum =
     (if reducible r \<le> 0 then select_loop stop rs selected cum
      else if stop (cum + reducible r) then (selected @ [r], cum + reducible r)
      else select_loop stop rs (selected @ [r]) (cum + reducible r))"

definition positive_rows :: "row list \<Rightarrow> row list" where
  "positive_rows ranked = filter (\<lambda>r. 0 < reducible r) ranked"

text \<open>The running sum of the loop over a list of rows: it starts at 0 and adds the
  reducible amounts from left to right.\<close>

definition reducible_sum :: "row list \<Rightarrow> real" where
  "reducible_sum rs = foldl (\<lambda>cum r. cum + reducible r) 0 rs"

subsection \<open>What a run ends with\<close>

text \<open>
  \<open>MissingColumns status missing found\<close>: the error about columns;
  \<open>NothingToReduce status message\<close>: the message about a zero total;
  \<open>Uncaught e\<close>: an exception nobody catches, the interpreter ends with status 1;
  \<open>Report status ranked selected cum total_metric target\<close>: the printed result.
  Writing the ranked table to a file (\<open>--out\<close>) is left out.
\<close>

datatype outcome =
    MissingColumns int "string list" "string list"
  | NothingToReduce int string
  | Uncaught error
  | Report int "row list" "row list" real real real

fun exit_status :: "outcome \<Rightarrow> int" where
  "exit_status (MissingColumns st missing found) = st"
| "exit_status (NothingToReduce st msg) = st"
| "exit_status (Uncaught e) = 1"
| "exit_status (Report st ranked selected cum total_metric target) = st"

fun ranked_of :: "outcome \<Rightarrow> row list" where
  "ranked_of (Report st ranked selected cum total_metric target) = ranked"
| "ranked_of _ = []"

fun selected_of :: "outcome \<Rightarrow> row list" where
  "selected_of (Report st ranked selected cum total_metric target) = selected"
| "selected_of _ = []"

subsection \<open>The rework scripts\<close>

record variant =
  metric_candidates :: "string list"
  metric_label :: string
  zero_message :: string

definition rework_cost :: variant where
  "rework_cost =
     \<lparr>metric_candidates =
        [''total rework cost'', ''rework_cost'', ''rework cost'', ''total_rework_cost''],
      metric_label = ''Total rework cost'',
      zero_message = ''Total rework cost is 0. Nothing to reduce.''\<rparr>"

definition rework_hours :: variant where
  "rework_hours =
     \<lparr>metric_candidates = [''total rework hours'', ''rework_hours'', ''rework hours''],
      metric_label = ''Total rework hours'',
      zero_message = ''Total rework hours is 0. Nothing to reduce.''\<rparr>"

text \<open>\<open>sort_values\<close> on two columns, both descending (lines 109 to 112). On several
  columns pandas sorts with a stable lexicographic sort; it is modelled by the stable
  insertion sort of the library on the pair of negated keys.\<close>

definition rank_rework :: "row list \<Rightarrow> row list" where
  "rank_rework work = sort_key (\<lambda>r. (- reducible r, - metric r)) work"

definition select_rework :: "real \<Rightarrow> row list \<Rightarrow> row list \<times> real" where
  "select_rework target ranked =
     select_loop (\<lambda>cum. cum + 1 / 1000000000 \<ge> target) ranked [] 0"

definition missing_columns ::
  "variant \<Rightarrow> string option \<Rightarrow> string option \<Rightarrow> string option \<Rightarrow> string list" where
  "missing_columns v col_activity col_metric col_rate =
     (if col_activity = None then [''value/activity''] else [])
     @ (if col_metric = None then [metric_label v] else [])
     @ (if col_rate = None then [''automation_rate''] else [])"

definition rework_report :: "row list \<Rightarrow> real \<Rightarrow> outcome" where
  "rework_report work goal =
     (let total_metric = sum_list (map metric work);
          target = total_metric * (goal / 100);
          ranked = rank_rework work;
          (selected, cum) = select_rework target ranked
      in Report 0 ranked selected cum total_metric target)"

text \<open>\<open>main\<close> (lines 66 to 147). The last branch of the case cannot be reached: when no
  name is missing the three columns are found.\<close>

definition main_rework :: "variant \<Rightarrow> dataframe \<Rightarrow> real \<Rightarrow> outcome" where
  "main_rework v df goal =
     (let col_activity = find_col (columns df) [''value'', ''activity'', ''activity_name'', ''name''];
          col_metric = find_col (columns df) (metric_candidates v);
          col_rate = find_col (columns df) [''automation_rate'', ''automation rate'', ''automation''];
          missing = missing_columns v col_activity col_metric col_rate
      in if missing \<noteq> [] then MissingColumns 2 missing (columns df)
         else case (col_activity, col_metric, col_rate) of
                (Some a, Some m, Some q) \<Rightarrow>
                  (case load_table parse_rate (columns df) (rows df) a m q of
                     Inl e \<Rightarrow> Uncaught e
                   | Inr work \<Rightarrow>
                       if sum_list (map metric work) \<le> 0
                       then NothingToReduce 0 (zero_message v)
                       else rework_report work goal)
              | _ \<Rightarrow> MissingColumns 2 missing (columns df))"

subsection \<open>The execution time script\<close>

text \<open>
  \<open>sort_values\<close> on one column, descending (line 75). On one column pandas takes an
  index order from NumPy with its default algorithm, quicksort, which does not promise
  an order among equal keys. That index order is a parameter \<open>argsort\<close> of the model: a
  function of the key column alone. \<open>descending_argsort\<close> is what every such order
  satisfies; \<open>argsort_stable\<close> leaves equal keys in input order, which is what the
  library returns on short tables.
\<close>

definition descending_argsort :: "(real list \<Rightarrow> nat list) \<Rightarrow> real list \<Rightarrow> bool" where
  "descending_argsort argsort keys =
     (distinct (argsort keys) \<and> set (argsort keys) = {0..<length keys}
      \<and> sorted_wrt (\<lambda>i j. keys ! i \<ge> keys ! j) (argsort keys))"

definition argsort_stable :: "real list \<Rightarrow> nat list" where
  "argsort_stable keys = sort_key (\<lambda>i. - (keys ! i)) [0..<length keys]"

definition rank_time_reduction :: "(real list \<Rightarrow> nat list) \<Rightarrow> row list \<Rightarrow> row list" where
  "rank_time_reduction argsort work = map (\<lambda>i. work ! i) (argsort (map reducible work))"

definition select_time_reduction :: "real \<Rightarrow> row list \<Rightarrow> row list \<times> real" where
  "select_time_reduction target ranked = select_loop (\<lambda>cum. cum \<ge> target) ranked [] 0"

definition time_reduction_report :: "(real list \<Rightarrow> nat list) \<Rightarrow> row list \<Rightarrow> real \<Rightarrow> outcome" where
  "time_reduction_report argsort work goal =
     (let total_metric = sum_list (map metric work);
          target = total_metric * (goal / 100);
          ranked = rank_time_reduction argsort work;
          (selected, cum) = select_time_reduction target ranked
      in Report 0 ranked selected cum total_metric target)"

text \<open>\<open>main\<close> (lines 29 to 112). The columns are renamed to their normalised names
  first; the loop over the required names leaves at the first one that is absent.\<close>

definition main_time_reduction :: "(real list \<Rightarrow> nat list) \<Rightarrow> dataframe \<Rightarrow> real \<Rightarrow> outcome" where
  "main_time_reduction argsort df goal =
     (let cols = map (\<lambda>c. lower (strip c)) (columns df)
      in case filter (\<lambda>col. col \<notin> set cols) [''value'', ''total_duration'', ''automation_rate''] of
           col # _ \<Rightarrow> MissingColumns 1 [col] cols
         | [] \<Rightarrow>
             (case load_table parse_automation_rate cols (rows df)
                     ''value'' ''total_duration'' ''automation_rate'' of
                Inl e \<Rightarrow> Uncaught e
              | Inr work \<Rightarrow>
                  if sum_list (map metric work) = 0
                  then NothingToReduce 0 ''Total execution time is 0. Nothing to reduce.''
                  else time_reduction_report argsort work goal))"

subsection \<open>Numerals the regular expression matches\<close>

text \<open>A run of digits, with a point and a second run when that one is not empty, and
  the number they denote.\<close>

definition number_text :: "string \<Rightarrow> string \<Rightarrow> string" where
  "number_text ds es = ds @ (if es = [] then [] else CHR ''.'' # es)"

definition decimal_value :: "string \<Rightarrow> string \<Rightarrow> real" where
  "decimal_value ds es = real (digits_value ds) + real (digits_value es) / 10 ^ length es"

subsection \<open>Tables used as examples\<close>

text \<open>The end-to-end example of the specification, as a file of the cost script and as a
  file of the execution time script.\<close>

definition row_A :: row where
  "row_A = \<lparr>activity = Text ''A'', metric = 100, rate = 1 / 2\<rparr>"

definition row_B :: row where
  "row_B = \<lparr>activity = Text ''B'', metric = 50, rate = 1\<rparr>"

definition row_C :: row where
  "row_C = \<lparr>activity = Text ''C'', metric = 200, rate = 1 / 10\<rparr>"

definition cost_table :: dataframe where
  "cost_table =
     \<lparr>columns = [''Value'', ''Total Rework Cost'', ''Automation_Rate''],
      rows = [[Text ''A'', Num 100, Text ''50%''],
              [Text ''B'', Num 50, Text ''100%''],
              [Text ''C'', Num 200, Text ''10%'']]\<rparr>"

definition duration_table :: dataframe where
  "duration_table =
     \<lparr>columns = [''Value'', ''Total_Duration'', ''Automation_Rate''],
      rows = [[Text ''A'', Num 100, Text ''50%''],
              [Text ''B'', Num 50, Text ''100%''],
              [Text ''C'', Num 200, Text ''10%'']]\<rparr>"

text \<open>Two activities with the same reducible amount, the second with the larger metric.\<close>

definition row_P :: row where
  "row_P = \<lparr>activity = Text ''P'', metric = 50, rate = 1\<rparr>"

definition row_Q :: row where
  "row_Q = \<lparr>activity = Text ''Q'', metric = 100, rate = 1 / 2\<rparr>"

definition tie_table :: dataframe where
  "tie_table =
     \<lparr>columns = [''value'', ''total_duration'', ''automation_rate''],
      rows = [[Text ''P'', Num 50, Num 1],
              [Text ''Q'', Num 100, Num (1 / 2)]]\<rparr>"

text \<open>A rate cell that is no number.\<close>

definition bad_rate_table :: dataframe where
  "bad_rate_table =
     \<lparr>columns = [''value'', ''total_duration'', ''automation_rate''],
      rows = [[Text ''A'', Num 100, Text ''20%''],
              [Text ''B'', Num 50, Text ''abc'']]\<rparr>"

text \<open>A goal that the first activity misses by less than the tolerance: the total is 2,
  the goal 25.00000001 percent, the target 0.5000000002.\<close>

definition row_U :: row where
  "row_U = \<lparr>activity = Text ''U'', metric = 1, rate = 1 / 2\<rparr>"

definition row_V :: row where
  "row_V = \<lparr>activity = Text ''V'', metric = 1, rate = 1 / 4\<rparr>"

definition near_miss_table :: dataframe where
  "near_miss_table =
     \<lparr>columns = [''value'', ''total_duration'', ''automation_rate''],
      rows = [[Text ''U'', Num 1, Num (1 / 2)],
              [Text ''V'', Num 1, Num (1 / 4)]]\<rparr>"

definition near_miss_cost_table :: dataframe where
  "near_miss_cost_table =
     \<lparr>columns = [''value'', ''total rework cost'', ''automation_rate''],
      rows = [[Text ''U'', Num 1, Num (1 / 2)],
              [Text ''V'', Num 1, Num (1 / 4)]]\<rparr>"

definition near_miss_goal :: real where
  "near_miss_goal = 2500000001 / 100000000"

text \<open>A table whose metric sums to \<open>- 3\<close>.\<close>

definition row_M :: row where
  "row_M = \<lparr>activity = Text ''M'', metric = - 5, rate = 1 / 2\<rparr>"

definition row_N :: row where
  "row_N = \<lparr>activity = Text ''N'', metric = 2, rate = 1 / 2\<rparr>"

definition negative_table :: dataframe where
  "negative_table =
     \<lparr>columns = [''value'', ''total_duration'', ''automation_rate''],
      rows = [[Text ''M'', Num (- 5), Num (1 / 2)],
              [Text ''N'', Num 2, Num (1 / 2)]]\<rparr>"

definition negative_cost_table :: dataframe where
  "negative_cost_table =
     \<lparr>columns = [''value'', ''total rework cost'', ''automation_rate''],
      rows = [[Text ''M'', Num (- 5), Num (1 / 2)],
              [Text ''N'', Num 2, Num (1 / 2)]]\<rparr>"

text \<open>A table with none of the required columns.\<close>

definition other_columns_table :: dataframe where
  "other_columns_table =
     \<lparr>columns = [''Task'', ''Hours''],
      rows = [[Text ''A'', Num 100]]\<rparr>"


section \<open>Properties\<close>

subsection \<open>The rate parser of the rework scripts\<close>

lemma strip_no_space: "\<forall>c\<in>set s. \<not> is_space c \<Longrightarrow> strip s = s"
proof -
  assume a: "\<forall>c\<in>set s. \<not> is_space c"
  have d: "\<And>xs. \<forall>c\<in>set xs. \<not> is_space c \<Longrightarrow> dropWhile is_space xs = xs"
    by (case_tac xs) auto
  show ?thesis unfolding strip_def using a by (simp add: d)
qed

lemma remove_underscores_plain:
  "CHR ''_'' \<notin> set s \<Longrightarrow> prev \<noteq> CHR ''_'' \<Longrightarrow> remove_underscores prev s = Some s"
  by (induction s arbitrary: prev) auto

lemma is_digit_chars:
  "is_digit c \<Longrightarrow> \<not> is_space c \<and> c \<noteq> CHR ''_'' \<and> c \<noteq> CHR ''.'' \<and> c \<noteq> CHR ''-'' \<and> c \<noteq> CHR ''+''"
  by (auto simp: is_digit_def is_space_def)

lemma takeWhile_digits_dot:
  "\<forall>c\<in>set ds. is_digit c \<Longrightarrow> takeWhile is_digit (ds @ CHR ''.'' # es) = ds"
  by (simp add: takeWhile_append2 is_digit_def)

lemma dropWhile_digits_dot:
  "\<forall>c\<in>set ds. is_digit c \<Longrightarrow> dropWhile is_digit (ds @ CHR ''.'' # es) = CHR ''.'' # es"
  by (simp add: dropWhile_append2 is_digit_def)

lemma takeWhile_all: "\<forall>c\<in>set ds. P c \<Longrightarrow> takeWhile P ds = ds"
  by (induction ds) auto

lemma dropWhile_all: "\<forall>c\<in>set ds. P c \<Longrightarrow> dropWhile P ds = []"
  by (induction ds) auto

lemma float_literal_unsigned:
  assumes ds: "\<forall>c\<in>set ds. is_digit c" and es: "\<forall>c\<in>set es. is_digit c"
    and ne: "ds \<noteq> [] \<or> es \<noteq> []"
  shows "float_literal (ds @ (if es = [] then [] else CHR ''.'' # es)) = Inr (decimal_value ds es)"
proof (cases "es = []")
  case True
  with ne obtain d ds' where dd: "ds = d # ds'" by (cases ds) auto
  with ds have "is_digit d" by simp
  then have nd: "d \<noteq> CHR ''-''" "d \<noteq> CHR ''+''" using is_digit_chars by auto
  show ?thesis using True ds nd dd
    by (simp add: float_literal_def takeWhile_all dropWhile_all exponent_part_def pow10_def decimal_value_def digits_value_def)
next
  case False
  show ?thesis
  proof (cases ds)
    case Nil
    then show ?thesis using False es
      by (simp add: float_literal_def takeWhile_all dropWhile_all exponent_part_def pow10_def decimal_value_def digits_value_def is_digit_def)
  next
    case (Cons d ds')
    with ds have "is_digit d" by simp
    then have nd: "d \<noteq> CHR ''-''" "d \<noteq> CHR ''+''" using is_digit_chars by auto
    have tk: "takeWhile is_digit (ds @ CHR ''.'' # es) = ds" "dropWhile is_digit (ds @ CHR ''.'' # es) = CHR ''.'' # es"
      using ds takeWhile_digits_dot dropWhile_digits_dot by blast+
    have "float_literal (ds @ CHR ''.'' # es) = Inr (decimal_value ds es)"
      using nd es tk unfolding Cons
      by (simp add: float_literal_def takeWhile_all dropWhile_all exponent_part_def pow10_def decimal_value_def)
    then show ?thesis using False by simp
  qed
qed

lemma float_literal_signed:
  assumes ds: "\<forall>c\<in>set ds. is_digit c" and es: "\<forall>c\<in>set es. is_digit c"
    and ne: "ds \<noteq> [] \<or> es \<noteq> []" and sg: "c = CHR ''-'' \<or> c = CHR ''+''"
  shows "float_literal (c # ds @ (if es = [] then [] else CHR ''.'' # es)) =
           Inr ((if c = CHR ''-'' then - 1 else 1) * decimal_value ds es)"
proof -
  have nd: "\<not> is_digit CHR ''.''" by (simp add: is_digit_def)
  have tk: "takeWhile is_digit (ds @ CHR ''.'' # es) = ds" "dropWhile is_digit (ds @ CHR ''.'' # es) = CHR ''.'' # es"
    using ds takeWhile_digits_dot dropWhile_digits_dot by blast+
  show ?thesis
  proof (cases "es = []")
    case True
    then show ?thesis using sg ds ne
      by (auto simp: float_literal_def takeWhile_all dropWhile_all exponent_part_def pow10_def decimal_value_def digits_value_def)
  next
    case False
    then show ?thesis using sg es tk
      by (auto simp: float_literal_def takeWhile_all dropWhile_all exponent_part_def pow10_def decimal_value_def)
  qed
qed

lemma match_unsigned_shape:
  assumes "match_unsigned cs = Some m"
  shows "\<exists>ds es. m = number_text ds es \<and> (\<forall>c\<in>set ds. is_digit c) \<and> (\<forall>c\<in>set es. is_digit c)
           \<and> (ds \<noteq> [] \<or> es \<noteq> [])"
proof -
  define ds where "ds = takeWhile is_digit cs"
  define es where "es = (case dropWhile is_digit cs of [] \<Rightarrow> [] | c # r \<Rightarrow> if c = CHR ''.'' then takeWhile is_digit r else [])"
  have d: "\<forall>c\<in>set ds. is_digit c" unfolding ds_def by (auto dest: set_takeWhileD)
  have e: "\<forall>c\<in>set es. is_digit c" unfolding es_def by (auto split: list.splits dest: set_takeWhileD)
  have "m = number_text ds es \<and> (ds \<noteq> [] \<or> es \<noteq> [])"
    using assms unfolding match_unsigned_def number_text_def ds_def[symmetric] es_def[symmetric] Let_def
    by (auto split: if_splits)
  with d e show ?thesis by blast
qed

lemma match_here_shape:
  assumes "match_here cs = Some m"
  shows "\<exists>sg ds es. m = sg @ number_text ds es \<and> (sg = [] \<or> sg = ''-'' \<or> sg = ''+'')
           \<and> (\<forall>c\<in>set ds. is_digit c) \<and> (\<forall>c\<in>set es. is_digit c) \<and> (ds \<noteq> [] \<or> es \<noteq> [])"
proof (cases cs)
  case Nil
  with assms show ?thesis by (simp add: match_here_def)
next
  case (Cons c r)
  show ?thesis
  proof (cases "(c = CHR ''-'' \<or> c = CHR ''+'') \<and> match_unsigned r \<noteq> None")
    case True
    then obtain m' where m': "match_unsigned r = Some m'" by auto
    with True Cons assms have "m = c # m'" by (auto simp: match_here_def)
    moreover from match_unsigned_shape[OF m'] obtain ds es where
      "m' = number_text ds es" "\<forall>c\<in>set ds. is_digit c" "\<forall>c\<in>set es. is_digit c" "ds \<noteq> [] \<or> es \<noteq> []"
      by blast
    ultimately show ?thesis using True
      by (intro exI[of _ "[c]"] exI[of _ ds] exI[of _ es]) auto
  next
    case False
    with Cons assms have "match_unsigned cs = Some m"
      by (auto simp: match_here_def split: option.splits if_splits)
    from match_unsigned_shape[OF this] show ?thesis by (metis append_Nil)
  qed
qed

lemma re_search_shape:
  "re_search s = Some m \<Longrightarrow>
     \<exists>sg ds es. m = sg @ number_text ds es \<and> (sg = [] \<or> sg = ''-'' \<or> sg = ''+'')
           \<and> (\<forall>c\<in>set ds. is_digit c) \<and> (\<forall>c\<in>set es. is_digit c) \<and> (ds \<noteq> [] \<or> es \<noteq> [])"
proof (induction s)
  case Nil
  then show ?case by simp
next
  case (Cons c cs)
  show ?case
  proof (cases "match_here (c # cs)")
    case None
    with Cons show ?thesis by simp
  next
    case (Some m')
    with Cons.prems have "m' = m" by simp
    with Some match_here_shape show ?thesis by blast
  qed
qed

lemma number_chars:
  "is_digit c \<or> c = CHR ''.'' \<or> c = CHR ''-'' \<or> c = CHR ''+'' \<Longrightarrow> \<not> is_space c \<and> c \<noteq> CHR ''_''"
  by (auto simp: is_digit_def is_space_def)

lemma number_text_chars:
  assumes "sg = [] \<or> sg = ''-'' \<or> sg = ''+''"
    and "\<forall>c\<in>set ds. is_digit c" and "\<forall>c\<in>set es. is_digit c"
    and "c \<in> set (sg @ number_text ds es)"
  shows "is_digit c \<or> c = CHR ''.'' \<or> c = CHR ''-'' \<or> c = CHR ''+''"
  using assms by (auto simp: number_text_def split: if_splits)

lemma py_float_number_text:
  assumes sg: "sg = [] \<or> sg = ''-'' \<or> sg = ''+''"
    and ds: "\<forall>c\<in>set ds. is_digit c" and es: "\<forall>c\<in>set es. is_digit c"
    and ne: "ds \<noteq> [] \<or> es \<noteq> []"
  shows "py_float (sg @ number_text ds es) =
           Inr ((if sg = ''-'' then - 1 else 1) * decimal_value ds es)"
proof -
  let ?m = "sg @ number_text ds es"
  have a: "\<forall>c\<in>set ?m. \<not> is_space c"
    using number_text_chars[OF sg ds es] number_chars by blast
  have b: "CHR ''_'' \<notin> set ?m"
    using number_text_chars[OF sg ds es] number_chars by blast
  have "strip ?m = ?m" using a by (rule strip_no_space)
  moreover have "remove_underscores (CHR 0x00) ?m = Some ?m"
    using b by (rule remove_underscores_plain) simp
  ultimately have "py_float ?m = float_literal ?m"
    by (simp add: py_float_def)
  also have "\<dots> = Inr ((if sg = ''-'' then - 1 else 1) * decimal_value ds es)"
  proof -
    consider "sg = []" | "sg = ''-''" | "sg = ''+''" using sg by blast
    then show ?thesis
    proof cases
      case 1
      then show ?thesis using float_literal_unsigned[OF ds es ne] by (simp add: number_text_def)
    next
      case 2
      then show ?thesis using float_literal_signed[OF ds es ne, of "CHR ''-''"] by (simp add: number_text_def)
    next
      case 3
      then show ?thesis using float_literal_signed[OF ds es ne, of "CHR ''+''"] by (simp add: number_text_def)
    qed
  qed
  finally show ?thesis .
qed

lemma py_float_re_search: "re_search s = Some m \<Longrightarrow> \<exists>v. py_float m = Inr v"
  using re_search_shape py_float_number_text by blast

lemma parse_rate_total: "\<exists>r. parse_rate x = Inr r"
proof (cases x)
  case (Text t)
  show ?thesis
  proof (cases "re_search (strip t)")
    case None
    with Text show ?thesis by (simp add: parse_rate_def Let_def)
  next
    case (Some m)
    with py_float_re_search obtain v where "py_float m = Inr v" by blast
    with Text Some show ?thesis by (simp add: parse_rate_def Let_def)
  qed
qed (simp_all add: parse_rate_def)

lemma parse_rate_range:
  assumes p: "parse_rate x = Inr r"
  shows "0 \<le> r \<and> r \<le> 1"
proof (cases x)
  case Missing
  with p show ?thesis by (auto simp: parse_rate_def)
next
  case (Num n)
  with p show ?thesis by (auto simp: parse_rate_def clamp01_def Let_def)
next
  case (Text t)
  have c: "\<And>v. 0 \<le> clamp01 v \<and> clamp01 v \<le> 1" by (simp add: clamp01_def)
  from p Text show ?thesis
    by (auto simp: parse_rate_def Let_def c split: if_splits option.splits sum.splits)
qed

subsection \<open>The selection loop\<close>

lemma select_loop_positive:
  "select_loop stop rs sel cum = (sel', cum') \<Longrightarrow> set sel' \<subseteq> set sel \<union> {r \<in> set rs. 0 < reducible r}"
proof (induction rs arbitrary: sel cum)
  case Nil
  then show ?case by simp
next
  case (Cons r rs)
  show ?case
  proof (cases "reducible r \<le> 0")
    case True
    with Cons.prems have "select_loop stop rs sel cum = (sel', cum')" by simp
    from Cons.IH[OF this] show ?thesis by auto
  next
    case False
    show ?thesis
    proof (cases "stop (cum + reducible r)")
      case True
      with False Cons.prems show ?thesis by auto
    next
      case nostop: False
      with False Cons.prems have "select_loop stop rs (sel @ [r]) (cum + reducible r) = (sel', cum')" by simp
      from Cons.IH[OF this] False show ?thesis by auto
    qed
  qed
qed

lemma foldl_reducible:
  "foldl (\<lambda>cum r. cum + reducible r) a rs = a + sum_list (map reducible rs)"
  by (induction rs arbitrary: a) (simp_all add: add.assoc)

lemma reducible_sum_eq: "reducible_sum rs = sum_list (map reducible rs)"
  by (simp add: reducible_sum_def foldl_reducible)

text \<open>The loop returns a prefix of the positive rows, with its running sum, and it
  stopped at the first prefix whose sum meets the stop test.\<close>

lemma select_loop_prefix:
  "select_loop stop rs sel cum = (sel', cum') \<Longrightarrow>
     \<exists>k\<le>length (positive_rows rs).
        sel' = sel @ take k (positive_rows rs)
      \<and> cum' = cum + reducible_sum (take k (positive_rows rs))
      \<and> (\<forall>j. 0 < j \<and> j < k \<longrightarrow> \<not> stop (cum + reducible_sum (take j (positive_rows rs))))
      \<and> (k < length (positive_rows rs) \<longrightarrow> 0 < k \<and> stop cum')"
proof (induction rs arbitrary: sel cum)
  case Nil
  then show ?case by (simp add: positive_rows_def reducible_sum_eq)
next
  case (Cons r rs)
  show ?case
  proof (cases "reducible r \<le> 0")
    case True
    with Cons.prems have "select_loop stop rs sel cum = (sel', cum')" by simp
    from Cons.IH[OF this] True show ?thesis by (simp add: positive_rows_def)
  next
    case False
    then have pos: "positive_rows (r # rs) = r # positive_rows rs" by (simp add: positive_rows_def)
    show ?thesis
    proof (cases "stop (cum + reducible r)")
      case True
      with False Cons.prems have "sel' = sel @ [r]" "cum' = cum + reducible r" by auto
      then show ?thesis unfolding pos using True
        by (intro exI[of _ 1]) (simp add: reducible_sum_eq)
    next
      case nostop: False
      with False Cons.prems have "select_loop stop rs (sel @ [r]) (cum + reducible r) = (sel', cum')" by simp
      from Cons.IH[OF this] obtain k where k: "k \<le> length (positive_rows rs)"
        "sel' = (sel @ [r]) @ take k (positive_rows rs)"
        "cum' = cum + reducible r + reducible_sum (take k (positive_rows rs))"
        "\<forall>j. 0 < j \<and> j < k \<longrightarrow> \<not> stop (cum + reducible r + reducible_sum (take j (positive_rows rs)))"
        "k < length (positive_rows rs) \<longrightarrow> 0 < k \<and> stop cum'"
        by blast
      have "\<forall>j. 0 < j \<and> j < Suc k \<longrightarrow> \<not> stop (cum + reducible_sum (take j (r # positive_rows rs)))"
      proof (intro allI impI)
        fix j assume j: "0 < j \<and> j < Suc k"
        then obtain i where i: "j = Suc i" by (cases j) auto
        show "\<not> stop (cum + reducible_sum (take j (r # positive_rows rs)))"
        proof (cases "i = 0")
          case True
          with i nostop show ?thesis by (simp add: reducible_sum_eq)
        next
          case False
          with i j k(4) have "\<not> stop (cum + reducible r + reducible_sum (take i (positive_rows rs)))" by simp
          with i show ?thesis by (simp add: reducible_sum_eq add.assoc)
        qed
      qed
      with k show ?thesis unfolding pos
        by (intro exI[of _ "Suc k"]) (simp add: reducible_sum_eq add.assoc)
    qed
  qed
qed

lemma select_loop_nonempty:
  assumes "select_loop stop rs [] cum = (sel', cum')" "\<exists>r\<in>set rs. 0 < reducible r"
  shows "sel' \<noteq> []"
  using assms
proof (induction rs)
  case Nil
  then show ?case by simp
next
  case (Cons r rs)
  show ?case
  proof (cases "reducible r \<le> 0")
    case True
    with Cons show ?thesis by auto
  next
    case False
    from select_loop_prefix[OF Cons.prems(1)] False
    obtain k where k: "sel' = take k (positive_rows (r # rs))" "k < length (positive_rows (r # rs)) \<longrightarrow> 0 < k"
      by auto
    with False show ?thesis by (cases k) (auto simp: positive_rows_def)
  qed
qed

lemma select_loop_first:
  assumes "select_loop stop rs [] 0 = (sel', cum')" "\<exists>r\<in>set rs. 0 < reducible r"
    and "\<And>c. 0 < c \<Longrightarrow> stop c"
  shows "sel' = [hd (positive_rows rs)]"
  using assms(1,2)
proof (induction rs)
  case Nil
  then show ?case by simp
next
  case (Cons r rs)
  show ?case
  proof (cases "reducible r \<le> 0")
    case True
    with Cons show ?thesis by (auto simp: positive_rows_def)
  next
    case False
    then have "stop (0 + reducible r)" using assms(3) by simp
    with False Cons.prems show ?thesis by (auto simp: positive_rows_def)
  qed
qed


subsection \<open>Ranking\<close>

lemma rank_rework_sorted:
  "sorted_wrt (\<lambda>a b. reducible a \<ge> reducible b \<and> (reducible a = reducible b \<longrightarrow> metric a \<ge> metric b))
     (rank_rework work)"
proof -
  have "sorted (map (\<lambda>r. (- reducible r, - metric r)) (rank_rework work))"
    unfolding rank_rework_def by (rule sorted_sort_key)
  then have "sorted_wrt (\<lambda>a b. (- reducible a, - metric a) \<le> (- reducible b, - metric b)) (rank_rework work)"
    by (simp add: sorted_map)
  then show ?thesis
    by (rule sorted_wrt_mono_rel[rotated]) (auto simp: less_eq_prod_def)
qed

lemma rank_rework_set: "set (rank_rework work) = set work"
  by (simp add: rank_rework_def)

lemma rank_rework_length: "length (rank_rework work) = length work"
  by (simp add: rank_rework_def)

lemma argsort_stable_descending: "descending_argsort argsort_stable keys"
proof -
  have "sorted (map (\<lambda>i. - (keys ! i)) (argsort_stable keys))"
    unfolding argsort_stable_def by (rule sorted_sort_key)
  then have "sorted_wrt (\<lambda>i j. keys ! i \<ge> keys ! j) (argsort_stable keys)"
    by (simp add: sorted_map)
  then show ?thesis
    by (simp add: descending_argsort_def) (simp add: argsort_stable_def)
qed

lemma rank_time_reduction_sorted:
  assumes "descending_argsort argsort (map reducible work)"
  shows "sorted_wrt (\<lambda>a b. reducible a \<ge> reducible b) (rank_time_reduction argsort work)"
proof -
  let ?idx = "argsort (map reducible work)"
  from assms have s: "sorted_wrt (\<lambda>i j. map reducible work ! i \<ge> map reducible work ! j) ?idx"
    and r: "set ?idx = {0..<length work}"
    by (simp_all add: descending_argsort_def)
  have "sorted_wrt (\<lambda>i j. reducible (work ! i) \<ge> reducible (work ! j)) ?idx"
    using s by (rule sorted_wrt_mono_rel[rotated]) (use r in auto)
  then show ?thesis
    by (simp add: rank_time_reduction_def sorted_wrt_map)
qed

lemma rank_time_reduction_set:
  assumes "descending_argsort argsort (map reducible work)"
  shows "set (rank_time_reduction argsort work) = set work"
proof -
  from assms have "set (argsort (map reducible work)) = {0..<length work}"
    by (simp add: descending_argsort_def)
  then have "set (rank_time_reduction argsort work) = (\<lambda>i. work ! i) ` {0..<length work}"
    by (simp add: rank_time_reduction_def)
  also have "\<dots> = set work"
    by (metis map_nth set_map set_upt)
  finally show ?thesis .
qed

lemma two_indices:
  assumes "distinct xs" "set xs = {0..<2::nat}"
  shows "xs = [0, 1] \<or> xs = [1, 0]"
proof -
  have "length xs = card (set xs)" using assms(1) by (simp add: distinct_card)
  with assms(2) have "length xs = Suc (Suc 0)" by simp
  then obtain a b where ab: "xs = [a, b]"
    by (auto simp: length_Suc_conv)
  with assms have "a \<noteq> b" "a < 2" "b < 2" by auto
  then have "(a = 0 \<and> b = 1) \<or> (a = 1 \<and> b = 0)" by arith
  with ab show ?thesis by auto
qed

subsection \<open>What a report holds\<close>

lemma main_rework_Report:
  assumes "main_rework v df goal = Report st ranked selected cum tot target"
  shows "\<exists>work. st = 0 \<and> tot = sum_list (map metric work) \<and> 0 < tot \<and> target = tot * (goal / 100)
           \<and> ranked = rank_rework work \<and> select_rework target ranked = (selected, cum)"
  using assms unfolding main_rework_def rework_report_def Let_def
  by (auto split: if_splits option.splits sum.splits prod.splits)

lemma main_time_reduction_Report:
  assumes "main_time_reduction argsort df goal = Report st ranked selected cum tot target"
  shows "\<exists>work. st = 0 \<and> tot = sum_list (map metric work) \<and> tot \<noteq> 0 \<and> target = tot * (goal / 100)
           \<and> ranked = rank_time_reduction argsort work \<and> select_time_reduction target ranked = (selected, cum)"
  using assms unfolding main_time_reduction_def time_reduction_report_def Let_def
  by (auto split: if_splits list.splits sum.splits prod.splits)

lemma report_loop:
  assumes "out = main_rework v df goal \<or> out = main_time_reduction argsort df goal"
    and "out = Report st ranked selected cum tot target"
  shows "\<exists>tol\<ge>0. select_loop (\<lambda>c. c + tol \<ge> target) ranked [] 0 = (selected, cum)
           \<and> target = tot * (goal / 100) \<and> st = 0"
proof -
  from assms consider
      (rework) "main_rework v df goal = Report st ranked selected cum tot target"
    | (time) "main_time_reduction argsort df goal = Report st ranked selected cum tot target"
    by auto
  then show ?thesis
  proof cases
    case rework
    from main_rework_Report[OF this] show ?thesis
      unfolding select_rework_def by (intro exI[of _ "1 / 1000000000"]) auto
  next
    case time
    from main_time_reduction_Report[OF this] show ?thesis
      unfolding select_time_reduction_def by (intro exI[of _ 0]) auto
  qed
qed

subsection \<open>The rework scripts: rates, columns, totals\<close>

lemma set_dropWhile_keep: "\<not> P x \<Longrightarrow> x \<in> set (dropWhile P xs) \<longleftrightarrow> x \<in> set xs"
  by (induction xs) auto

lemma set_strip: "\<not> is_space c \<Longrightarrow> c \<in> set (strip s) \<longleftrightarrow> c \<in> set s"
  by (simp add: strip_def set_dropWhile_keep)

lemma parse_rate_Num: "parse_rate (Num n) = Inr (reference_rate False n)"
  by (simp add: parse_rate_def reference_rate_def)

lemma parse_rate_Text:
  assumes "re_search (strip t) = Some m" and "py_float m = Inr v"
  shows "parse_rate (Text t) = Inr (reference_rate (CHR ''%'' \<in> set t) v)"
proof -
  have "\<not> is_space (CHR ''%'')" by (simp add: is_space_def)
  then have p: "CHR ''%'' \<in> set (strip t) \<longleftrightarrow> CHR ''%'' \<in> set t" by (rule set_strip)
  from assms(1) have "strip t \<noteq> []" by auto
  with assms p show ?thesis
    by (simp add: parse_rate_def reference_rate_def Let_def)
qed

lemma parse_rate_no_number:
  "re_search (strip t) = None \<Longrightarrow> parse_rate (Text t) = Inr 0"
  by (simp add: parse_rate_def Let_def)

lemma parse_rate_examples:
  "parse_rate (Text ''20%'') = Inr (2 / 10)"
  "parse_rate (Num 20) = Inr (2 / 10)"
  "parse_rate (Text ''20'') = Inr (2 / 10)"
  "parse_rate (Num (2 / 10)) = Inr (2 / 10)"
  "parse_rate Missing = Inr 0"
  "parse_rate (Text ''abc'') = Inr 0"
  "parse_rate (Num 150) = Inr 1"
  "parse_rate (Num (- 5)) = Inr 0"
  by code_simp+

lemma apply_all_total:
  assumes "\<And>x. \<exists>y. f x = Inr y"
  shows "\<exists>ys. apply_all f xs = Inr ys"
proof (induction xs)
  case Nil
  show ?case by simp
next
  case (Cons x xs)
  from assms obtain y where "f x = Inr y" by blast
  with Cons show ?case by auto
qed

lemma load_table_parse_rate: "load_table parse_rate cols rs a m q \<noteq> Inl e"
proof -
  from apply_all_total[of parse_rate, OF parse_rate_total]
  obtain rates where "apply_all parse_rate (get_col cols rs q) = Inr rates" by blast
  then show ?thesis by (simp add: load_table_def)
qed

lemma main_rework_never_raises: "main_rework v df goal \<noteq> Uncaught e"
  unfolding main_rework_def rework_report_def Let_def
  by (auto split: if_splits option.splits sum.splits prod.splits simp: load_table_parse_rate)

lemma to_numeric_default:
  "to_numeric Missing = 0" "py_float t = Inl e \<Longrightarrow> to_numeric (Text t) = 0"
  by (simp_all add: to_numeric_def)

lemma first_candidate_None:
  "first_candidate lookup cands = None \<longleftrightarrow> (\<forall>cand\<in>set cands. lookup (lower (strip cand)) = None)"
  by (induction cands) (auto split: option.splits)

lemma find_col_None:
  "find_col cols cands = None \<longleftrightarrow>
     (\<forall>cand\<in>set cands. lower (strip cand) \<notin> (\<lambda>c. lower (strip c)) ` set cols)"
proof -
  have "\<And>k. map_of (rev (map (\<lambda>c. (lower (strip c), c)) cols)) k = None
              \<longleftrightarrow> k \<notin> (\<lambda>c. lower (strip c)) ` set cols"
    by (simp add: map_of_eq_None_iff image_image)
  then show ?thesis by (simp add: find_col_def first_candidate_None)
qed

lemma main_rework_missing:
  assumes "missing_columns v
             (find_col (columns df) [''value'', ''activity'', ''activity_name'', ''name''])
             (find_col (columns df) (metric_candidates v))
             (find_col (columns df) [''automation_rate'', ''automation rate'', ''automation'']) = missing"
    and "missing \<noteq> []"
  shows "main_rework v df goal = MissingColumns 2 missing (columns df)"
  using assms by (simp add: main_rework_def Let_def)

lemma missing_columns_nonempty:
  "missing_columns v a m q \<noteq> [] \<longleftrightarrow> a = None \<or> m = None \<or> q = None"
  by (simp add: missing_columns_def)

lemma missing_columns_names:
  "''value/activity'' \<in> set (missing_columns v a m q) \<longleftrightarrow> a = None \<or> (m = None \<and> metric_label v = ''value/activity'')"
  "''automation_rate'' \<in> set (missing_columns v a m q) \<longleftrightarrow> q = None \<or> (m = None \<and> metric_label v = ''automation_rate'')"
  "m = None \<Longrightarrow> metric_label v \<in> set (missing_columns v a m q)"
  by (auto simp: missing_columns_def)

lemma main_rework_zero_total:
  assumes "find_col (columns df) [''value'', ''activity'', ''activity_name'', ''name''] = Some a"
    and "find_col (columns df) (metric_candidates v) = Some m"
    and "find_col (columns df) [''automation_rate'', ''automation rate'', ''automation''] = Some q"
    and "load_table parse_rate (columns df) (rows df) a m q = Inr work"
    and "sum_list (map metric work) \<le> 0"
  shows "main_rework v df goal = NothingToReduce 0 (zero_message v)"
  using assms by (simp add: main_rework_def missing_columns_def Let_def)

lemma main_rework_status: "exit_status (main_rework v df goal) = 0 \<or> exit_status (main_rework v df goal) = 2"
  unfolding main_rework_def rework_report_def Let_def
  by (auto split: if_splits option.splits sum.splits prod.splits simp: load_table_parse_rate)

lemma select_rework_stops:
  assumes "select_rework target ranked = (selected, cum)"
  shows "\<exists>k\<le>length (positive_rows ranked).
           selected = take k (positive_rows ranked)
         \<and> cum = reducible_sum selected
         \<and> (\<forall>j. 0 < j \<and> j < k \<longrightarrow> \<not> reducible_sum (take j (positive_rows ranked)) + 1 / 1000000000 \<ge> target)
         \<and> (k < length (positive_rows ranked) \<longrightarrow> 0 < k \<and> cum + 1 / 1000000000 \<ge> target)"
  using select_loop_prefix[OF assms[unfolded select_rework_def]] by auto

subsection \<open>Runs of the example tables\<close>

lemma cost_table_goal_10:
  "main_rework rework_cost cost_table 10 = Report 0 [row_A, row_B, row_C] [row_A] 50 350 35"
  by code_simp

lemma duration_table_goal_10:
  "main_time_reduction argsort_stable duration_table 10
     = Report 0 [row_A, row_B, row_C] [row_A] 50 350 35"
  by code_simp




lemma tie_rows: "reducible row_P = reducible row_Q" "metric row_P < metric row_Q"
  by (simp_all add: reducible_def row_P_def row_Q_def)

section \<open>The claims\<close>

subsection \<open>C1: ranking order\<close>

text \<open>
  The rework scripts rank by reducible amount, descending, and among equal reducible
  amounts by metric, descending: that is \<open>rank_rework_sorted\<close>. The execution time script
  sorts on the reducible amount alone; whatever order the library gives to equal keys,
  one of two mirrored tables comes out with the smaller metric first.
\<close>

lemma tie_break_fails_for_every_order:
  assumes "descending_argsort argsort [50, 50]"
  shows "rank_time_reduction argsort [row_P, row_Q] = [row_P, row_Q]
         \<or> rank_time_reduction argsort [row_Q, row_P] = [row_P, row_Q]"
proof -
  from assms have "distinct (argsort [50, 50])" "set (argsort [50, 50]) = {0..<2}"
    by (simp_all add: descending_argsort_def numeral_2_eq_2)
  then have "argsort [50, 50] = [0, 1] \<or> argsort [50, 50] = [1, 0]" by (rule two_indices)
  moreover have "map reducible [row_P, row_Q] = [50, 50]" "map reducible [row_Q, row_P] = [50, 50]"
    by (simp_all add: reducible_def row_P_def row_Q_def)
  ultimately show ?thesis by (auto simp: rank_time_reduction_def)
qed

text \<open>
  C1. The ranking is non-increasing in the reducible amount and, among equal reducible
  amounts, puts the greater metric first, in all three scripts. The execution time
  script does not: on the table of P (metric 50, rate 1) and Q (metric 100, rate 0.5),
  with equal keys left in input order, P is ranked before Q although both reduce 50 and Q
  has the greater metric.
\<close>

theorem time_reduction_ties_ignore_metric:
  "ranked_of (main_time_reduction argsort_stable tie_table 10) = [row_P, row_Q]
   \<and> reducible row_P = reducible row_Q \<and> metric row_P < metric row_Q"
proof -
  have "main_time_reduction argsort_stable tie_table 10 = Report 0 [row_P, row_Q] [row_P] 50 150 15"
    by code_simp
  then show ?thesis by (simp add: tie_rows)
qed

subsection \<open>C2: the rate rule\<close>

text \<open>
  \<open>parse_rate\<close> is the rule of the specification, on numbers (\<open>parse_rate_Num\<close>) and on
  text (\<open>parse_rate_Text\<close>), and gives the listed values (\<open>parse_rate_examples\<close>).
\<close>

text \<open>
  C2. The rate parser follows the reference rule and clamps its result to the unit
  interval, so that 150 gives 1 and \<open>- 5\<close> gives 0, in every script. The parser of the
  execution time script does not clamp: it returns 1.5 for 150 and for "150%", and
  \<open>- 5\<close> for \<open>- 5\<close>, where \<open>parse_rate\<close> returns 1 and 0.
\<close>

theorem parse_automation_rate_not_clamped:
  "parse_automation_rate (Num 150) = Inr (3 / 2)
   \<and> parse_automation_rate (Num (- 5)) = Inr (- 5)
   \<and> parse_automation_rate (Text ''150%'') = Inr (3 / 2)
   \<and> parse_rate (Num 150) = Inr 1
   \<and> parse_rate (Num (- 5)) = Inr 0"
  by code_simp

subsection \<open>C3: cells that cannot be read\<close>

text \<open>
  \<open>parse_rate\<close> always returns (\<open>parse_rate_total\<close>), with a value in the unit interval
  (\<open>parse_rate_range\<close>) that is 0 when the text holds no number (\<open>parse_rate_no_number\<close>);
  a run of a rework script never ends in an exception (\<open>main_rework_never_raises\<close>); and a
  metric cell that is no number counts as 0 in all three scripts (\<open>to_numeric_default\<close>).
\<close>

text \<open>
  C3. The rate parser returns 0 on a missing, empty or unreadable value and never raises,
  so that one bad rate cell does not end the run. The parser of the execution time script
  raises \<open>ValueError\<close> on the text "abc", and the run of a table with that cell ends in
  the uncaught exception, whatever the goal; \<open>parse_rate\<close> returns 0 there.
\<close>

theorem parse_automation_rate_raises:
  "parse_automation_rate (Text ''abc'') = Inl ValueError
   \<and> main_time_reduction argsort bad_rate_table goal = Uncaught ValueError
   \<and> parse_rate (Text ''abc'') = Inr 0"
proof -
  have 1: "parse_automation_rate (Text ''abc'') = Inl ValueError" by code_simp
  have 2: "parse_automation_rate (Text ''20%'') = Inr (1 / 5)" by code_simp
  have 3: "parse_rate (Text ''abc'') = Inr 0" by code_simp
  have "map (\<lambda>c. lower (strip c)) (columns bad_rate_table) = [''value'', ''total_duration'', ''automation_rate'']"
    by code_simp
  moreover have "get_col [''value'', ''total_duration'', ''automation_rate''] (rows bad_rate_table) ''automation_rate''
      = [Text ''20%'', Text ''abc'']"
    by code_simp
  ultimately have "main_time_reduction argsort bad_rate_table goal = Uncaught ValueError"
    by (simp add: main_time_reduction_def load_table_def 1 2)
  with 1 3 show ?thesis by simp
qed

subsection \<open>C4: the stop test\<close>

text \<open>
  In the rework scripts the selection is the shortest prefix of the positive rows whose
  sum, with the tolerance added, reaches the target, or all of them
  (\<open>select_rework_stops\<close>).
\<close>

text \<open>
  C4. In every script the loop breaks exactly when the running sum plus 1e-9 reaches the
  target. The execution time script compares without the tolerance: with a target of
  0.5000000002 and a first activity that reduces 0.5 it goes on to the second activity,
  although 0.5 + 1e-9 reaches the target; the cost script stops after the first.
\<close>

theorem time_reduction_without_tolerance:
  "main_time_reduction argsort_stable near_miss_table near_miss_goal
     = Report 0 [row_U, row_V] [row_U, row_V] (3 / 4) 2 (2500000001 / 5000000000)
   \<and> reducible row_U + 1 / 1000000000 \<ge> 2500000001 / 5000000000
   \<and> main_rework rework_cost near_miss_cost_table near_miss_goal
     = Report 0 [row_U, row_V] [row_U] (1 / 2) 2 (2500000001 / 5000000000)"
proof -
  have "main_time_reduction argsort_stable near_miss_table near_miss_goal
     = Report 0 [row_U, row_V] [row_U, row_V] (3 / 4) 2 (2500000001 / 5000000000)"
    by code_simp
  moreover have "main_rework rework_cost near_miss_cost_table near_miss_goal
     = Report 0 [row_U, row_V] [row_U] (1 / 2) 2 (2500000001 / 5000000000)"
    by code_simp
  moreover have "reducible row_U + 1 / 1000000000 \<ge> 2500000001 / 5000000000"
    by (simp add: reducible_def row_U_def)
  ultimately show ?thesis by simp
qed

subsection \<open>C5: nothing without a reducible amount is selected\<close>

lemma selected_positive:
  assumes "out = main_rework v df goal \<or> out = main_time_reduction argsort df goal"
    and "r \<in> set (selected_of out)"
  shows "0 < reducible r"
proof (cases out)
  case (Report st ranked selected cum tot target)
  from report_loop[OF assms(1) Report] obtain tol where
    "select_loop (\<lambda>c. c + tol \<ge> target) ranked [] 0 = (selected, cum)" by blast
  from select_loop_positive[OF this] assms(2) Report show ?thesis by auto
qed (use assms(2) in simp_all)

text \<open>
  C5. For every table and goal, in all three scripts, every selected record has a
  reducible amount above 0 (when the run selects nothing, there is nothing to check).
\<close>

theorem zero_skip:
  "(\<forall>r\<in>set (selected_of (main_rework v df goal)). 0 < reducible r)
   \<and> (\<forall>r\<in>set (selected_of (main_time_reduction argsort df' goal')). 0 < reducible r)"
  using selected_positive by blast

theorem zero_skip_witness:
  "selected_of (main_rework rework_cost cost_table 10) = [row_A]
   \<and> selected_of (main_time_reduction argsort_stable duration_table 10) = [row_A]
   \<and> 0 < reducible row_A"
  using zero_skip[of rework_cost cost_table 10 argsort_stable duration_table 10]
  by (simp add: cost_table_goal_10 duration_table_goal_10)

subsection \<open>C6: minimality\<close>





subsection \<open>C7: a total that is not positive\<close>

text \<open>
  A rework script whose columns are found and whose metric sums to 0 or less prints its
  message and ends with status 0 (\<open>main_rework_zero_total\<close>); its report, when there is one,
  has a positive total (\<open>main_rework_Report\<close>).
\<close>

text \<open>
  C7. In every script a total of 0 or less ends the run before ranking, with the message
  and status 0. The execution time script tests for a total equal to 0 only: on a table
  with metrics \<open>- 5\<close> and 2 it ranks and selects, and reports a total of \<open>- 3\<close>; the cost
  script prints its message for the same rows.
\<close>

theorem time_reduction_negative_total:
  "main_time_reduction argsort_stable negative_table 10
     = Report 0 [row_N, row_M] [row_N] 1 (- 3) (- 3 / 10)
   \<and> main_rework rework_cost negative_cost_table 10
     = NothingToReduce 0 ''Total rework cost is 0. Nothing to reduce.''"
  by code_simp

subsection \<open>C8: missing columns\<close>

text \<open>
  In the rework scripts a column is missing exactly when no candidate name matches a
  column up to case and surrounding blanks (\<open>find_col_None\<close>), and the run then ends with
  status 2, the labels of all the missing columns and the columns of the file
  (\<open>main_rework_missing\<close>, \<open>missing_columns_nonempty\<close>, \<open>missing_columns_names\<close>).
\<close>

text \<open>
  C8. In every script, when required columns are missing the run names each of them,
  lists the columns present and ends with a status other than 0. The execution time
  script leaves at the first missing name: on a file with the columns Task and Hours it
  names only \<open>value\<close> (and lists the normalised column names), with status 1; the cost script
  names all three.
\<close>

theorem time_reduction_first_missing_only:
  "main_time_reduction argsort other_columns_table goal
     = MissingColumns 1 [''value''] [''task'', ''hours'']
   \<and> main_rework rework_cost other_columns_table goal
     = MissingColumns 2 [''value/activity'', ''Total rework cost'', ''automation_rate'']
         [''Task'', ''Hours'']"
proof -
  have c: "map (\<lambda>c. lower (strip c)) (columns other_columns_table) = [''task'', ''hours'']"
    by code_simp
  have 1: "main_time_reduction argsort other_columns_table goal
     = MissingColumns 1 [''value''] [''task'', ''hours'']"
    by (simp add: main_time_reduction_def c)
  have f: "find_col (columns other_columns_table) [''value'', ''activity'', ''activity_name'', ''name''] = None"
    "find_col (columns other_columns_table) (metric_candidates rework_cost) = None"
    "find_col (columns other_columns_table) [''automation_rate'', ''automation rate'', ''automation''] = None"
    by code_simp+
  have l: "metric_label rework_cost = ''Total rework cost''" by (simp add: rework_cost_def)
  have "main_rework rework_cost other_columns_table goal
     = MissingColumns 2 [''value/activity'', ''Total rework cost'', ''automation_rate'']
         (columns other_columns_table)"
    by (simp add: main_rework_def Let_def f missing_columns_def l)
  then have 2: "main_rework rework_cost other_columns_table goal
     = MissingColumns 2 [''value/activity'', ''Total rework cost'', ''automation_rate'']
         [''Task'', ''Hours'']"
    by (simp add: other_columns_table_def)
  from 1 2 show ?thesis by simp
qed

subsection \<open>The first positive record\<close>

text \<open>
  In all three scripts a run that reports, and whose ranking has a record with a positive
  reducible amount, selects at least that record; and when the target it computed is 0 or
  less, it selects exactly the first such record. In exact arithmetic a goal of 0 or less
  and a positive total give such a target; in the programs a total that overflowed gives
  the target \<open>nan\<close> at a goal of 0, which is outside what is modelled here.
\<close>

lemma first_positive_selected:
  assumes "out = main_rework v df goal \<or> out = main_time_reduction argsort df goal"
    and "out = Report st ranked selected cum tot target"
    and "\<exists>r\<in>set ranked. 0 < reducible r"
  shows "selected \<noteq> [] \<and> (target \<le> 0 \<longrightarrow> selected = [hd (positive_rows ranked)])"
proof -
  from report_loop[OF assms(1,2)] obtain tol where tol: "0 \<le> tol"
    and loop: "select_loop (\<lambda>c. c + tol \<ge> target) ranked [] 0 = (selected, cum)"
    by blast
  have "selected \<noteq> []" using loop assms(3) by (rule select_loop_nonempty)
  moreover have "selected = [hd (positive_rows ranked)]" if "target \<le> 0"
  proof -
    from that tol have "\<And>c. 0 < c \<Longrightarrow> c + tol \<ge> target" by simp
    with loop assms(3) show ?thesis by (rule select_loop_first)
  qed
  ultimately show ?thesis by blast
qed

end
